theory Spec2Isabelle
  imports Complex_Main
begin

section \<open>The bastion tunnel script (scripts/db-tunnel.ts)\<close>

text \<open>
  The script resolves two CloudFormation outputs, drives the bastion instance to
  \<open>running\<close>, spawns the SSM port-forwarding client and stops the bastion again from its
  signal handlers and from the child's exit observer. Every call that leaves the process
  (AWS SDK \<open>send\<close>, \<open>spawn\<close>, \<open>kill\<close>, console output, \<open>sleep\<close>, \<open>process.exit\<close>) is
  recorded as an \<open>action\<close>; what the environment answers (responses, clock readings,
  settled promises, signals) is an input of the model.
\<close>

subsection \<open>Values of the host language\<close>

text \<open>A JavaScript number, as far as the script looks at it: NaN, the infinities, or a
  finite value (every double is a rational; \<open>0\<close> and \<open>-0\<close> are both \<open>Finite 0\<close>).\<close>

datatype number = NaN | Infinity | NegInfinity | Finite rat

definition falsyNumber :: "number \<Rightarrow> bool" where
  "falsyNumber n = (n = NaN \<or> n = Finite 0)"

definition isNaN :: "number \<Rightarrow> bool" where
  "isNaN n = (n = NaN)"

text \<open>A value of type \<open>string | undefined\<close> is a \<open>string option\<close>; it is truthy when it is
  a non-empty string, and \<open>a || b\<close> is \<open>a\<close> when \<open>a\<close> is truthy and \<open>b\<close> otherwise.\<close>

definition truthy :: "string option \<Rightarrow> bool" where
  "truthy v = (case v of None \<Rightarrow> False | Some s \<Rightarrow> s \<noteq> [])"

definition orElse :: "string option \<Rightarrow> string option \<Rightarrow> string option" where
  "orElse a b = (if truthy a then a else b)"

text \<open>\<open>Array.prototype.indexOf\<close> (first position, or -1) and an indexed read, which is
  \<open>undefined\<close> out of range.\<close>

fun indexOf :: "'a list \<Rightarrow> 'a \<Rightarrow> int" where
  "indexOf [] k = - 1"
| "indexOf (x # xs) k =
     (if x = k then 0 else (let i = indexOf xs k in if i < 0 then - 1 else i + 1))"

definition elemAt :: "'a list \<Rightarrow> int \<Rightarrow> 'a option" where
  "elemAt xs i = (if 0 \<le> i \<and> i < int (length xs) then Some (xs ! nat i) else None)"

subsection \<open>Data\<close>

datatype InstanceStateName = pending | running | shutting_down | terminated | stopping | stopped

text \<open>The errors the script throws (each stands for the \<open>new Error(...)\<close> with the text in
  the comment) and a rejected SDK call.\<close>

datatype error =
    MissingRegion                                 \<comment> \<open>Missing --region\<close>
  | MissingAccessStack                            \<comment> \<open>Missing --access-stack\<close>
  | MissingDbStack                                \<comment> \<open>Missing --db-stack\<close>
  | InvalidLocalPort                              \<comment> \<open>Invalid --local-port\<close>
  | StackNotFound string                          \<comment> \<open>Stack not found: name\<close>
  | OutputNotFound string string                  \<comment> \<open>Output key not found in name\<close>
  | TerminalState string "InstanceStateName option" \<comment> \<open>Bastion id is in terminal state: state\<close>
  | TimedOutStopping string                       \<comment> \<open>Timed out waiting for bastion id to finish stopping\<close>
  | TimedOutRunning string                        \<comment> \<open>Timed out waiting for bastion id to become running\<close>
  | Rejected string                               \<comment> \<open>a rejected \<open>send\<close> of the AWS SDK\<close>

record Args =
  region :: string
  accessStack :: string
  dbStack :: string
  localPort :: number

record Output =
  OutputKey :: "string option"
  OutputValue :: "string option"

record Stack =
  Outputs :: "Output list option"

text \<open>The CloudFormation client: \<open>DescribeStacks\<close> on a stack name is rejected or answers
  with the (optional) list \<open>Stacks\<close>.\<close>

type_synonym CloudFormation = "string \<Rightarrow> error + Stack list option"

record InstanceState =
  Name :: "InstanceStateName option"

record Instance =
  State :: "InstanceState option"

record Reservation =
  Instances :: "Instance list option"

record DescribeInstancesResult =
  Reservations :: "Reservation list option"

text \<open>The parameter document handed to the session client (the script serialises it with
  \<open>JSON.stringify\<close>; the model keeps the structure).\<close>

record Parameters =
  host :: "string list"
  portNumber :: "string list"
  localPortNumber :: "number list"

datatype logline =
    CurrentBastionState "InstanceStateName option"
  | BastionIsRunning string
  | BastionStarting string "InstanceStateName option"
  | StoppingBastion string
  | StoppingBeforeExit
  | BastionStopped
  | PortForwardParameters string string string number
  | SessionExited "int option"
  | WhenConnected number

datatype errline =
    FailedToStopBastion error
  | Uncaught error

datatype action =
    DescribeStacks string
  | DescribeInstances string
  | StartInstances string
  | StopInstances string
  | Sleep nat
  | Spawn string "string list" Parameters
  | Kill string
  | ConsoleLog logline
  | ConsoleError errline
  | Exit int

subsection \<open>parseArgs\<close>

definition get :: "string list \<Rightarrow> string \<Rightarrow> string option \<Rightarrow> string option" where
  "get args k def =
     (let i = indexOf args (''--'' @ k) in if i \<ge> 0 then elemAt args (i + 1) else def)"

text \<open>\<open>parseArgs\<close> reads \<open>process.argv\<close> and \<open>process.env.AWS_REGION\<close>; \<open>Number\<close>, the
  language's conversion of a string to a number, is the parameter \<open>toNumber\<close>. The two
  copies of the script differ only in the default stack names.\<close>

definition parseArgsWith ::
  "string \<Rightarrow> string \<Rightarrow> (string \<Rightarrow> number) \<Rightarrow> string option \<Rightarrow> string list \<Rightarrow> error + Args" where
  "parseArgsWith accessDefault dbDefault toNumber AWS_REGION argv =
     (let args = drop 2 argv;
          region = orElse (orElse (get args ''region'' None) AWS_REGION) (Some ''us-east-1'');
          accessStack = orElse (get args ''access-stack'' None) (Some accessDefault);
          dbStack = orElse (get args ''db-stack'' None) (Some dbDefault);
          localPort = (case get args ''local-port'' None of
                         None \<Rightarrow> Finite 5439
                       | Some s \<Rightarrow> if s \<noteq> [] then toNumber s else Finite 5439)
      in case region of
           None \<Rightarrow> Inl MissingRegion
         | Some r \<Rightarrow>
             if r = [] then Inl MissingRegion
             else (case accessStack of
                     None \<Rightarrow> Inl MissingAccessStack
                   | Some a \<Rightarrow>
                       if a = [] then Inl MissingAccessStack
                       else (case dbStack of
                               None \<Rightarrow> Inl MissingDbStack
                             | Some d \<Rightarrow>
                                 if d = [] then Inl MissingDbStack
                                 else if falsyNumber localPort \<or> isNaN localPort
                                 then Inl InvalidLocalPort
                                 else Inr \<lparr>region = r, accessStack = a, dbStack = d,
                                           localPort = localPort\<rparr>)))"

definition parseArgs :: "(string \<Rightarrow> number) \<Rightarrow> string option \<Rightarrow> string list \<Rightarrow> error + Args" where
  "parseArgs = parseArgsWith ''VersoStat-AccessStack-prod'' ''VersoStat-DatabaseStack-prod''"

definition parseArgs_v1 :: "(string \<Rightarrow> number) \<Rightarrow> string option \<Rightarrow> string list \<Rightarrow> error + Args" where
  "parseArgs_v1 = parseArgsWith ''VersoStat-AccessStack'' ''VersoStat-DatabaseStack''"

subsection \<open>getStackOutput\<close>

definition getStackOutput :: "CloudFormation \<Rightarrow> string \<Rightarrow> string \<Rightarrow> action list \<times> (error + string)" where
  "getStackOutput cf stackName outputKey =
     ([DescribeStacks stackName],
      case cf stackName of
        Inl e \<Rightarrow> Inl e
      | Inr Stacks \<Rightarrow>
          (case Option.bind Stacks (\<lambda>ss. elemAt ss 0) of
             None \<Rightarrow> Inl (StackNotFound stackName)
           | Some stack \<Rightarrow>
               (case Option.bind (Option.bind (Outputs stack)
                                    (find (\<lambda>out. OutputKey out = Some outputKey)))
                                 OutputValue of
                  None \<Rightarrow> Inl (OutputNotFound outputKey stackName)
                | Some val \<Rightarrow>
                    if val = [] then Inl (OutputNotFound outputKey stackName) else Inr val)))"

subsection \<open>getInstanceState and ensureInstanceRunning\<close>

definition getInstanceState ::
  "error + DescribeInstancesResult \<Rightarrow> error + InstanceStateName option" where
  "getInstanceState resp =
     (case resp of
        Inl e \<Rightarrow> Inl e
      | Inr r \<Rightarrow>
          (let reservations = (case Reservations r of None \<Rightarrow> [] | Some rs \<Rightarrow> rs);
               inst = Option.bind (Option.bind (elemAt reservations 0) Instances) (\<lambda>is. elemAt is 0)
           in Inr (Option.bind (Option.bind inst State) Name)))"

text \<open>What the environment supplies to one iteration of the polling loop: the answer to
  \<open>DescribeInstances\<close>, the reading of \<open>Date.now()\<close> the iteration takes when it compares
  against the timeout, and the fate of the \<open>StartInstances\<close> request should the iteration
  send one (\<open>None\<close>: accepted).\<close>

record poll =
  response :: "error + DescribeInstancesResult"
  now :: int
  startRejected :: "error option"

datatype 'a outcome = Returned 'a | Thrown error | Unfinished

datatype step = Continue | Finish "unit outcome"

text \<open>The body of the \<open>for (;;)\<close> loop, branch by branch in the order of the source.\<close>

definition pollIteration :: "string \<Rightarrow> int \<Rightarrow> int \<Rightarrow> poll \<Rightarrow> action list \<times> step" where
  "pollIteration instanceId timeoutMs start p =
     (case getInstanceState (response p) of
        Inl e \<Rightarrow> ([DescribeInstances instanceId], Finish (Thrown e))
      | Inr state \<Rightarrow>
          (let seen = [DescribeInstances instanceId, ConsoleLog (CurrentBastionState state)] in
           if state = Some running
           then (seen @ [ConsoleLog (BastionIsRunning instanceId)], Finish (Returned ()))
           else if state = Some terminated \<or> state = Some shutting_down
           then (seen, Finish (Thrown (TerminalState instanceId state)))
           else if state = Some stopping
           then (if now p - start > timeoutMs
                 then (seen, Finish (Thrown (TimedOutStopping instanceId)))
                 else (seen @ [Sleep 5000], Continue))
           else
             (let starts = (state = Some stopped \<or> state = None);
                  sent = seen @ (if starts
                                 then [ConsoleLog (BastionStarting instanceId state),
                                       StartInstances instanceId]
                                 else [])
              in case (if starts then startRejected p else None) of
                   Some e \<Rightarrow> (sent, Finish (Thrown e))
                 | None \<Rightarrow>
                     if now p - start > timeoutMs
                     then (sent, Finish (Thrown (TimedOutRunning instanceId)))
                     else (sent @ [Sleep 5000], Continue))))"

text \<open>The loop itself, over the injected sequence of polls. It returns the actions of
  each iteration it ran, in order, and how it ended; \<open>Unfinished\<close> means that the injected
  sequence is used up and the loop is still polling.\<close>

fun ensureInstanceRunning ::
  "string \<Rightarrow> int \<Rightarrow> int \<Rightarrow> poll list \<Rightarrow> action list list \<times> unit outcome" where
  "ensureInstanceRunning instanceId timeoutMs start [] = ([], Unfinished)"
| "ensureInstanceRunning instanceId timeoutMs start (p # ps) =
     (case pollIteration instanceId timeoutMs start p of
        (acts, Finish r) \<Rightarrow> ([acts], r)
      | (acts, Continue) \<Rightarrow>
          (case ensureInstanceRunning instanceId timeoutMs start ps of
             (its, r) \<Rightarrow> (acts # its, r)))"

subsection \<open>The process: globals, handlers, main\<close>

text \<open>The spawned session client, as the script sees it: its \<open>killed\<close> flag, and whether it
  has terminated. \<open>kill\<close> sets \<open>killed\<close> when the signal could be delivered, that is, when
  the child has not terminated yet.\<close>

record child =
  killed :: bool
  exited :: bool

text \<open>An asynchronous function suspended at its \<open>await stopInstance(...)\<close>:
  \<open>cleanupAndExit(code)\<close>, or the child's exit observer.\<close>

datatype awaiting = CleanupAwaitsStop int | ObserverAwaitsStop

text \<open>The state of the process: the three module-level variables, the exit observer
  registered on the child (with the instance id its closure captured), the suspended
  functions, the actions performed so far, and the code \<open>process.exit\<close> was called with.\<close>

record proc =
  ec2Global :: "string option"
  bastionIdGlobal :: "string option"
  childGlobal :: "child option"
  exitObserver :: "string option"
  awaits :: "awaiting list"
  trace :: "action list"
  exitCode :: "int option"

definition initial :: proc where
  "initial = \<lparr>ec2Global = None, bastionIdGlobal = None, childGlobal = None,
              exitObserver = None, awaits = [], trace = [], exitCode = None\<rparr>"

definition emit :: "action list \<Rightarrow> proc \<Rightarrow> proc" where
  "emit acts s = s\<lparr>trace := trace s @ acts\<rparr>"

definition processExit :: "int \<Rightarrow> proc \<Rightarrow> proc" where
  "processExit code s = s\<lparr>trace := trace s @ [Exit code], exitCode := Some code\<rparr>"

text \<open>\<open>stopInstance\<close> up to the point where it waits for the answer.\<close>

definition stopInstance :: "string \<Rightarrow> action list" where
  "stopInstance instanceId = [ConsoleLog (StoppingBastion instanceId), StopInstances instanceId]"

text \<open>\<open>cleanupAndExit\<close> up to its first suspension: it either waits for the stop request
  or, when no instance is tracked yet, exits at once.\<close>

definition cleanupAndExit :: "int \<Rightarrow> proc \<Rightarrow> proc" where
  "cleanupAndExit code s =
     (let s1 = (case childGlobal s of
                  None \<Rightarrow> s
                | Some c \<Rightarrow>
                    if \<not> killed c
                    then s\<lparr>childGlobal := Some (c\<lparr>killed := \<not> exited c\<rparr>),
                           trace := trace s @ [Kill ''SIGINT'']\<rparr>
                    else s)
      in case (ec2Global s1, bastionIdGlobal s1) of
           (Some ec2, Some bastionId) \<Rightarrow>
             if bastionId \<noteq> []
             then s1\<lparr>trace := trace s1 @ [ConsoleLog StoppingBeforeExit] @ stopInstance bastionId,
                     awaits := awaits s1 @ [CleanupAwaitsStop code]\<rparr>
             else processExit code s1
         | _ \<Rightarrow> processExit code s1)"

text \<open>The rest of a suspended function, run when its stop request settles (\<open>None\<close>:
  fulfilled, \<open>Some e\<close>: rejected with \<open>e\<close>).\<close>

definition resume :: "awaiting \<Rightarrow> error option \<Rightarrow> proc \<Rightarrow> proc" where
  "resume k r s =
     (let s1 = emit [case r of None \<Rightarrow> ConsoleLog BastionStopped
                              | Some e \<Rightarrow> ConsoleError (FailedToStopBastion e)] s
      in case k of
           CleanupAwaitsStop code \<Rightarrow> processExit code s1
         | ObserverAwaitsStop \<Rightarrow> s1)"

text \<open>The observer registered with \<open>child.on("exit", ...)\<close>, up to its suspension.\<close>

definition onChildExit :: "int option \<Rightarrow> string \<Rightarrow> proc \<Rightarrow> proc" where
  "onChildExit code bastionId s =
     s\<lparr>trace := trace s @ [ConsoleLog (SessionExited code)] @ stopInstance bastionId,
       awaits := awaits s @ [ObserverAwaitsStop]\<rparr>"

datatype signal = SIGTERM | SIGINT | SIGTSTP

fun onSignal :: "signal \<Rightarrow> proc \<Rightarrow> proc" where
  "onSignal SIGTERM s = cleanupAndExit 143 s"
| "onSignal SIGINT s = cleanupAndExit 130 s"
| "onSignal SIGTSTP s = cleanupAndExit 148 s"

text \<open>What can happen to the process between two of its own steps: a signal arrives, the
  child terminates, or the \<open>i\<close>-th outstanding stop request settles. An event reaches
  the process only while it is alive (\<open>process.exit\<close> has not been called), and a child
  exits once. Events are delivered to the state \<open>main\<close> has reached; \<open>main\<close> itself is
  not resumed by \<open>step\<close>.\<close>

datatype event = Signal signal | ChildExit "int option" | StopSettled nat "error option"

definition step :: "event \<Rightarrow> proc \<Rightarrow> proc" where
  "step e s =
     (if exitCode s \<noteq> None then s
      else case e of
        Signal sg \<Rightarrow> onSignal sg s
      | ChildExit code \<Rightarrow>
          (case childGlobal s of
             None \<Rightarrow> s
           | Some c \<Rightarrow>
               if exited c then s
               else (let s1 = s\<lparr>childGlobal := Some (c\<lparr>exited := True\<rparr>)\<rparr>
                     in case exitObserver s1 of
                          None \<Rightarrow> s1
                        | Some bastionId \<Rightarrow> onChildExit code bastionId s1))
      | StopSettled i r \<Rightarrow>
          (if i < length (awaits s)
           then resume (awaits s ! i) r (s\<lparr>awaits := take i (awaits s) @ drop (Suc i) (awaits s)\<rparr>)
           else s))"

fun run :: "event list \<Rightarrow> proc \<Rightarrow> proc" where
  "run [] s = s"
| "run (e # es) s = run es (step e s)"

text \<open>The status the process ends with: the code given to \<open>process.exit\<close>; or, when the
  script never calls it, the status 0 with which the Node.js runtime ends a process that
  has nothing left to wait for (the child has terminated and no function is suspended).
  \<open>None\<close>: the process is still running.\<close>

definition exitStatus :: "proc \<Rightarrow> int option" where
  "exitStatus s =
     (case exitCode s of
        Some code \<Rightarrow> Some code
      | None \<Rightarrow>
          (case childGlobal s of
             None \<Rightarrow> None
           | Some c \<Rightarrow> if exited c \<and> awaits s = [] then Some 0 else None))"

text \<open>The body of \<open>main\<close>, run from the start of the process: the state it reaches, and
  the error it throws, if any. When the injected polls are used up the state is the one
  in which \<open>main\<close> is still polling. \<open>start\<close> is the reading of \<open>Date.now()\<close> on entry to
  \<open>ensureInstanceRunning\<close>, which \<open>main\<close> calls with the default timeout.\<close>

definition main ::
  "(string \<Rightarrow> number) \<Rightarrow> string option \<Rightarrow> string list \<Rightarrow> CloudFormation \<Rightarrow> int \<Rightarrow> poll list
     \<Rightarrow> proc \<times> error option" where
  "main toNumber AWS_REGION argv cf start polls =
     (case parseArgs toNumber AWS_REGION argv of
        Inl e \<Rightarrow> (initial, Some e)
      | Inr a \<Rightarrow>
          (case getStackOutput cf (accessStack a) ''VersoStatBastionInstanceId'' of
             (t1, Inl e) \<Rightarrow> (emit t1 initial, Some e)
           | (t1, Inr bastionId) \<Rightarrow>
               (let s1 = (emit t1 initial)\<lparr>ec2Global := Some (region a),
                                            bastionIdGlobal := Some bastionId\<rparr>
                in case getStackOutput cf (dbStack a) ''VersoStatDbHost'' of
                     (t2, Inl e) \<Rightarrow> (emit t2 s1, Some e)
                   | (t2, Inr dbEndpoint) \<Rightarrow>
                       (case ensureInstanceRunning bastionId (5 * 60 * 1000) start polls of
                          (its, Thrown e) \<Rightarrow> (emit (t2 @ concat its) s1, Some e)
                        | (its, Unfinished) \<Rightarrow> (emit (t2 @ concat its) s1, None)
                        | (its, Returned u) \<Rightarrow>
                            ((emit (t2 @ concat its @
                                    [Sleep 10000,
                                     ConsoleLog (PortForwardParameters (region a) bastionId
                                                   dbEndpoint (localPort a)),
                                     Spawn ''aws''
                                       [''ssm'', ''start-session'', ''--region'', region a,
                                        ''--target'', bastionId, ''--document-name'',
                                        ''AWS-StartPortForwardingSessionToRemoteHost'',
                                        ''--parameters'']
                                       \<lparr>host = [dbEndpoint], portNumber = [''5432''],
                                        localPortNumber = [localPort a]\<rparr>,
                                     ConsoleLog (WhenConnected (localPort a))]) s1)
                             \<lparr>childGlobal := Some \<lparr>killed = False, exited = False\<rparr>,
                              exitObserver := Some bastionId\<rparr>, None)))))"

text \<open>The top level of the script: \<open>main().catch(e => { console.error(e); process.exit(1) })\<close>.\<close>

definition program ::
  "(string \<Rightarrow> number) \<Rightarrow> string option \<Rightarrow> string list \<Rightarrow> CloudFormation \<Rightarrow> int \<Rightarrow> poll list
     \<Rightarrow> proc" where
  "program toNumber AWS_REGION argv cf start polls =
     (case main toNumber AWS_REGION argv cf start polls of
        (s, Some e) \<Rightarrow> processExit 1 (emit [ConsoleError (Uncaught e)] s)
      | (s, None) \<Rightarrow> s)"

subsection \<open>Vocabulary of the properties\<close>

fun isStartRequest :: "action \<Rightarrow> bool" where
  "isStartRequest (StartInstances i) = True"
| "isStartRequest a = False"

fun isStopRequest :: "action \<Rightarrow> bool" where
  "isStopRequest (StopInstances i) = True"
| "isStopRequest a = False"

fun isKill :: "action \<Rightarrow> bool" where
  "isKill (Kill sg) = True"
| "isKill a = False"

fun isInstanceCall :: "action \<Rightarrow> bool" where
  "isInstanceCall (DescribeInstances i) = True"
| "isInstanceCall (StartInstances i) = True"
| "isInstanceCall (StopInstances i) = True"
| "isInstanceCall a = False"

fun isSleep :: "action \<Rightarrow> bool" where
  "isSleep (Sleep ms) = True"
| "isSleep a = False"

text \<open>A \<open>DescribeInstances\<close> answer showing one instance in the given state, one showing
  no instance at all, and a deployment whose two stacks publish the two outputs.\<close>

definition instanceIn :: "InstanceStateName \<Rightarrow> error + DescribeInstancesResult" where
  "instanceIn st =
     Inr \<lparr>Reservations = Some [\<lparr>Instances = Some [\<lparr>State = Some \<lparr>Name = Some st\<rparr>\<rparr>]\<rparr>]\<rparr>"

definition noInstance :: "error + DescribeInstancesResult" where
  "noInstance = Inr \<lparr>Reservations = Some []\<rparr>"

definition observe :: "InstanceStateName \<Rightarrow> int \<Rightarrow> poll" where
  "observe st t = \<lparr>response = instanceIn st, now = t, startRejected = None\<rparr>"

definition deployed :: CloudFormation where
  "deployed stackName =
     (if stackName = ''VersoStat-AccessStack-prod''
      then Inr (Some [\<lparr>Outputs = Some [\<lparr>OutputKey = Some ''VersoStatBastionInstanceId'',
                                        OutputValue = Some ''i-0bastion''\<rparr>]\<rparr>])
      else if stackName = ''VersoStat-DatabaseStack-prod''
      then Inr (Some [\<lparr>Outputs = Some [\<lparr>OutputKey = Some ''VersoStatDbHost'',
                                        OutputValue = Some ''db.internal''\<rparr>]\<rparr>])
      else Inl (Rejected ''ValidationError''))"

text \<open>The code each signal handler hands to \<open>cleanupAndExit\<close>.\<close>

fun signalCode :: "signal \<Rightarrow> int" where
  "signalCode SIGTERM = 143"
| "signalCode SIGINT = 130"
| "signalCode SIGTSTP = 148"

text \<open>A deployment in which only the access stack exists, and the state of the process
  after an uneventful start against the full deployment: the bastion is found running on
  the first poll and the session client has been spawned.\<close>

definition withoutDatabase :: CloudFormation where
  "withoutDatabase stackName =
     (if stackName = ''VersoStat-AccessStack-prod'' then deployed stackName else Inr (Some []))"

definition demoSession :: proc where
  "demoSession =
     program (\<lambda>s. NaN) None [''node'', ''db-tunnel.ts''] deployed 0 [observe running 1]"

section \<open>Properties\<close>

lemma getInstanceState_instanceIn: "getInstanceState (instanceIn st) = Inr (Some st)"
  by (simp add: getInstanceState_def instanceIn_def elemAt_def)

lemma getInstanceState_noInstance: "getInstanceState noInstance = Inr None"
  by (simp add: getInstanceState_def noInstance_def elemAt_def)

subsection \<open>parseArgs\<close>

lemma truthy_orElse_default: "s \<noteq> [] \<Longrightarrow> truthy (orElse a (Some s))"
  by (simp add: orElse_def truthy_def)

lemma truthy_Some: "truthy v \<Longrightarrow> \<exists>s. v = Some s \<and> s \<noteq> []"
  by (cases v) (simp_all add: truthy_def)

lemma parseArgsWith_results:
  assumes "accessDefault \<noteq> []" and "dbDefault \<noteq> []"
  shows "(parseArgsWith accessDefault dbDefault toNumber env argv = Inl e \<longrightarrow> e = InvalidLocalPort) \<and>
         (parseArgsWith accessDefault dbDefault toNumber env argv = Inr a \<longrightarrow>
            region a \<noteq> [] \<and> accessStack a \<noteq> [] \<and> dbStack a \<noteq> [])"
proof -
  obtain r where r: "orElse (orElse (get (drop 2 argv) ''region'' None) env) (Some ''us-east-1'') = Some r"
      "r \<noteq> []"
    using truthy_Some[OF truthy_orElse_default[of "''us-east-1''"]] by fastforce
  obtain x where x: "orElse (get (drop 2 argv) ''access-stack'' None) (Some accessDefault) = Some x"
      "x \<noteq> []"
    using truthy_Some[OF truthy_orElse_default[OF assms(1)]] by fastforce
  obtain d where d: "orElse (get (drop 2 argv) ''db-stack'' None) (Some dbDefault) = Some d"
      "d \<noteq> []"
    using truthy_Some[OF truthy_orElse_default[OF assms(2)]] by fastforce
  show ?thesis
    by (auto simp: parseArgsWith_def Let_def r x d split: if_splits)
qed

text \<open>
  Claim C10. For every argument vector, every value of \<open>AWS_REGION\<close> and every behaviour
  of \<open>Number\<close>, neither copy of \<open>parseArgs\<close> throws "Missing --region", "Missing
  --access-stack" or "Missing --db-stack": the three options always resolve to a non-empty
  string through their defaults, so the only error \<open>parseArgs\<close> can throw is "Invalid
  --local-port", and the three strings of a returned \<open>Args\<close> are non-empty.
\<close>

theorem parseArgs_only_invalid_local_port:
  "(parseArgs toNumber env argv = Inl e \<longrightarrow> e = InvalidLocalPort) \<and>
   (parseArgs toNumber env argv = Inr a \<longrightarrow>
      region a \<noteq> [] \<and> accessStack a \<noteq> [] \<and> dbStack a \<noteq> []) \<and>
   (parseArgs_v1 toNumber env argv = Inl e \<longrightarrow> e = InvalidLocalPort) \<and>
   (parseArgs_v1 toNumber env argv = Inr a \<longrightarrow>
      region a \<noteq> [] \<and> accessStack a \<noteq> [] \<and> dbStack a \<noteq> [])"
  unfolding parseArgs_def parseArgs_v1_def
  using parseArgsWith_results[of "''VersoStat-AccessStack-prod''" "''VersoStat-DatabaseStack-prod''"
          toNumber env argv e a]
        parseArgsWith_results[of "''VersoStat-AccessStack''" "''VersoStat-DatabaseStack''"
          toNumber env argv e a]
  by simp

theorem parseArgs_only_invalid_local_port_witness:
  "parseArgs (\<lambda>s. NaN) (Some [])
     [''node'', ''db-tunnel.ts'', ''--region'', [], ''--db-stack'', ''--local-port'', ''abc'']
     = Inl InvalidLocalPort \<and>
   parseArgs_v1 (\<lambda>s. Finite 8080) None
     [''node'', ''db-tunnel.ts'', ''--local-port'', ''8080'', ''--access-stack'']
     = Inr \<lparr>region = ''us-east-1'', accessStack = ''VersoStat-AccessStack'',
            dbStack = ''VersoStat-DatabaseStack'', localPort = Finite 8080\<rparr> \<and>
   ''us-east-1'' \<noteq> []"
  using parseArgs_only_invalid_local_port[of "\<lambda>s. NaN" "Some []"
          "[''node'', ''db-tunnel.ts'', ''--region'', [], ''--db-stack'', ''--local-port'', ''abc'']"
          InvalidLocalPort
          "\<lparr>region = ''us-east-1'', accessStack = ''VersoStat-AccessStack'',
            dbStack = ''VersoStat-DatabaseStack'', localPort = Finite 8080\<rparr>"]
  by (simp add: parseArgs_def parseArgs_v1_def parseArgsWith_def get_def elemAt_def orElse_def
        truthy_def falsyNumber_def isNaN_def)

subsection \<open>ensureInstanceRunning\<close>

lemma pollIteration_start:
  "StartInstances x \<in> set (fst (pollIteration i t st p)) \<Longrightarrow>
     getInstanceState (response p) = Inr (Some stopped) \<or> getInstanceState (response p) = Inr None"
  by (auto simp: pollIteration_def Let_def split: sum.splits if_splits option.splits)

lemma ensure_iterations:
  "ensureInstanceRunning i t st polls = (its, r) \<Longrightarrow>
     length its \<le> length polls \<and>
     (\<forall>k < length its. its ! k = fst (pollIteration i t st (polls ! k)))"
proof (induction polls arbitrary: its r)
  case Nil
  then show ?case by simp
next
  case (Cons p ps)
  obtain acts stp where it: "pollIteration i t st p = (acts, stp)" by fastforce
  show ?case
  proof (cases stp)
    case Continue
    obtain its' r' where rec: "ensureInstanceRunning i t st ps = (its', r')" by fastforce
    from Cons.prems it Continue rec have its: "its = acts # its'" by simp
    from Cons.IH[OF rec] its it show ?thesis
      by (auto simp: nth_Cons split: nat.splits)
  next
    case (Finish x)
    with Cons.prems it have "its = [acts]" by simp
    with it show ?thesis by simp
  qed
qed

lemma ensure_prefix:
  "\<forall>q \<in> set pre. snd (pollIteration i t st q) = Continue \<Longrightarrow>
   ensureInstanceRunning i t st (pre @ rest) =
     (map (\<lambda>q. fst (pollIteration i t st q)) pre @ fst (ensureInstanceRunning i t st rest),
      snd (ensureInstanceRunning i t st rest))"
  by (induction pre) (auto split: prod.splits step.splits)

lemma getInstanceState_observe: "getInstanceState (response (observe s t)) = Inr (Some s)"
  by (simp add: observe_def getInstanceState_def instanceIn_def elemAt_def)

text \<open>
  Claim C3. For every injected sequence of polls, the \<open>k\<close>-th iteration of
  \<open>ensureInstanceRunning\<close> reads the \<open>k\<close>-th injected answer, and it sends a start request
  only if the state it observed is \<open>stopped\<close> or undefined; an iteration that observed
  \<open>pending\<close>, \<open>stopping\<close> or \<open>running\<close> sends none.
\<close>

theorem ensureInstanceRunning_starts_only_from_stopped:
  assumes "ensureInstanceRunning i t st polls = (its, r)" and "k < length its"
  shows "k < length polls \<and>
         (StartInstances x \<in> set (its ! k) \<longrightarrow>
            getInstanceState (response (polls ! k)) = Inr (Some stopped) \<or>
            getInstanceState (response (polls ! k)) = Inr None) \<and>
         (getInstanceState (response (polls ! k)) \<in>
            {Inr (Some pending), Inr (Some stopping), Inr (Some running)} \<longrightarrow>
            StartInstances x \<notin> set (its ! k))"
proof -
  from ensure_iterations[OF assms(1)] assms(2)
  have len: "k < length polls" and itk: "its ! k = fst (pollIteration i t st (polls ! k))"
    by auto
  have pos: "StartInstances x \<in> set (its ! k) \<Longrightarrow>
            getInstanceState (response (polls ! k)) = Inr (Some stopped) \<or>
            getInstanceState (response (polls ! k)) = Inr None"
    unfolding itk by (rule pollIteration_start)
  from len pos show ?thesis by auto
qed

theorem ensureInstanceRunning_starts_only_from_stopped_witness:
  "ensureInstanceRunning ''i-0bastion'' 300000 0 [observe stopped 3, observe pending 5004] =
     ([[DescribeInstances ''i-0bastion'', ConsoleLog (CurrentBastionState (Some stopped)),
        ConsoleLog (BastionStarting ''i-0bastion'' (Some stopped)),
        StartInstances ''i-0bastion'', Sleep 5000],
       [DescribeInstances ''i-0bastion'', ConsoleLog (CurrentBastionState (Some pending)),
        Sleep 5000]], Unfinished) \<and>
   getInstanceState (response ([observe stopped 3, observe pending 5004] ! 0)) = Inr (Some stopped) \<and>
   getInstanceState (response ([observe stopped 3, observe pending 5004] ! 1)) = Inr (Some pending) \<and>
   StartInstances ''i-0bastion'' \<notin>
     set [DescribeInstances ''i-0bastion'', ConsoleLog (CurrentBastionState (Some pending)),
          Sleep 5000]"
proof -
  let ?its = "[[DescribeInstances ''i-0bastion'', ConsoleLog (CurrentBastionState (Some stopped)),
        ConsoleLog (BastionStarting ''i-0bastion'' (Some stopped)),
        StartInstances ''i-0bastion'', Sleep 5000],
       [DescribeInstances ''i-0bastion'', ConsoleLog (CurrentBastionState (Some pending)),
        Sleep 5000]]"
  have run: "ensureInstanceRunning ''i-0bastion'' 300000 0 [observe stopped 3, observe pending 5004]
               = (?its, Unfinished)"
    by (simp add: pollIteration_def getInstanceState_observe) (simp add: observe_def)
  have k0: "0 < length ?its" and k1: "1 < length ?its" by simp_all
  from ensureInstanceRunning_starts_only_from_stopped[OF run k0, of "''i-0bastion''"]
       ensureInstanceRunning_starts_only_from_stopped[OF run k1, of "''i-0bastion''"]
       run
  show ?thesis by (simp add: getInstanceState_observe)
qed

text \<open>
  Claim C4. If the first observed state is \<open>terminated\<close> or \<open>shutting-down\<close>,
  \<open>ensureInstanceRunning\<close> throws the terminal-state error in that first iteration,
  whatever the clock reads and whatever further answers are injected: the one iteration
  consists of the describe call and the state log line, so no start request is sent, no
  sleep follows and no further poll is made.
\<close>

theorem ensureInstanceRunning_terminal_state_first_poll:
  assumes "getInstanceState (response p) = Inr (Some s)" and "s = terminated \<or> s = shutting_down"
  shows "ensureInstanceRunning i t st (p # ps) =
           ([[DescribeInstances i, ConsoleLog (CurrentBastionState (Some s))]],
            Thrown (TerminalState i (Some s)))"
  using assms by (auto simp: pollIteration_def)

theorem ensureInstanceRunning_terminal_state_first_poll_witness:
  "getInstanceState (response (observe terminated 0)) = Inr (Some terminated) \<and>
   ensureInstanceRunning ''i-0bastion'' 300000 0 [observe terminated 0, observe running 5000] =
     ([[DescribeInstances ''i-0bastion'', ConsoleLog (CurrentBastionState (Some terminated))]],
      Thrown (TerminalState ''i-0bastion'' (Some terminated)))"
proof -
  have h: "getInstanceState (response (observe terminated 0)) = Inr (Some terminated)"
    by (rule getInstanceState_observe)
  from ensureInstanceRunning_terminal_state_first_poll[OF h, of "''i-0bastion''" 300000 0
         "[observe running 5000]"] h
  show ?thesis by simp
qed

text \<open>
  Claim C5, as stated, fails: the deadline is not consulted in every iteration. With the
  default timeout of 300000 ms and 300001 ms elapsed, an iteration that observes
  \<open>running\<close> returns normally, and one that observes \<open>terminated\<close> throws the
  terminal-state error; neither is a timeout.
\<close>

theorem ensureInstanceRunning_deadline_not_checked_when_running:
  "now (observe running 300001) - 0 > 300000 \<and>
   ensureInstanceRunning ''i-0bastion'' 300000 0 [observe running 300001] =
     ([[DescribeInstances ''i-0bastion'', ConsoleLog (CurrentBastionState (Some running)),
        ConsoleLog (BastionIsRunning ''i-0bastion'')]], Returned ()) \<and>
   snd (ensureInstanceRunning ''i-0bastion'' 300000 0 [observe terminated 300001]) =
     Thrown (TerminalState ''i-0bastion'' (Some terminated))"
  by (simp add: pollIteration_def getInstanceState_observe) (simp add: observe_def)

text \<open>
  Claim C5, amended. In any iteration of \<open>ensureInstanceRunning\<close> (all earlier ones having
  gone on polling) in which the elapsed time exceeds the timeout, the outcome depends on
  the observed state: \<open>running\<close> returns normally and \<open>terminated\<close> or \<open>shutting-down\<close>
  throws the terminal-state error, both without looking at the clock; \<open>stopping\<close> and
  \<open>pending\<close> throw a timeout error; \<open>stopped\<close> or undefined send the start request first
  and then throw the timeout error, unless the start request itself is rejected, whose
  error is thrown instead.
\<close>

theorem ensureInstanceRunning_deadline_by_state:
  assumes "\<forall>q \<in> set pre. snd (pollIteration i t st q) = Continue"
    and "now p - st > t"
    and "getInstanceState (response p) = Inr state"
  shows "snd (ensureInstanceRunning i t st (pre @ p # ps)) =
           (if state = Some running then Returned ()
            else if state = Some terminated \<or> state = Some shutting_down
            then Thrown (TerminalState i state)
            else if state = Some stopping then Thrown (TimedOutStopping i)
            else if state = Some pending then Thrown (TimedOutRunning i)
            else case startRejected p of
                   None \<Rightarrow> Thrown (TimedOutRunning i)
                 | Some e \<Rightarrow> Thrown e)"
proof -
  have "snd (ensureInstanceRunning i t st (pre @ p # ps)) =
        snd (ensureInstanceRunning i t st (p # ps))"
    using ensure_prefix[OF assms(1)] by simp
  also have "\<dots> =
           (if state = Some running then Returned ()
            else if state = Some terminated \<or> state = Some shutting_down
            then Thrown (TerminalState i state)
            else if state = Some stopping then Thrown (TimedOutStopping i)
            else if state = Some pending then Thrown (TimedOutRunning i)
            else case startRejected p of
                   None \<Rightarrow> Thrown (TimedOutRunning i)
                 | Some e \<Rightarrow> Thrown e)"
  proof (cases state)
    case None
    with assms(2,3) show ?thesis
      by (auto simp: pollIteration_def Let_def split: option.splits)
  next
    case (Some y)
    with assms(2,3) show ?thesis
      by (cases y) (auto simp: pollIteration_def Let_def split: option.splits)
  qed
  finally show ?thesis .
qed

theorem ensureInstanceRunning_deadline_by_state_witness:
  "snd (pollIteration ''i-0bastion'' 300000 0 (observe pending 10)) = Continue \<and>
   now (observe stopping 300001) - 0 > 300000 \<and>
   getInstanceState (response (observe stopping 300001)) = Inr (Some stopping) \<and>
   snd (ensureInstanceRunning ''i-0bastion'' 300000 0
          ([observe pending 10] @ observe stopping 300001 # [observe stopped 305000])) =
     Thrown (TimedOutStopping ''i-0bastion'')"
proof -
  have a: "\<forall>q \<in> set [observe pending 10]. snd (pollIteration ''i-0bastion'' 300000 0 q) = Continue"
    by (simp add: pollIteration_def getInstanceState_observe) (simp add: observe_def)
  have b: "now (observe stopping 300001) - 0 > 300000"
    by (simp add: observe_def)
  have c: "getInstanceState (response (observe stopping 300001)) = Inr (Some stopping)"
    by (rule getInstanceState_observe)
  from ensureInstanceRunning_deadline_by_state[OF a b c, of "[observe stopped 305000]"] a b c
  show ?thesis by simp
qed

text \<open>
  Claim C8. Let the injected states be \<open>stopped\<close>, \<open>pending\<close>, \<open>pending\<close>, \<open>running\<close>, the
  start request be accepted, and the first three polls be within the timeout. Then
  \<open>ensureInstanceRunning\<close> returns normally in the iteration that observes \<open>running\<close>,
  after three polls that each ended in a five-second sleep (with only those three
  answers injected it is still polling), and it has sent exactly one start request, in
  the iteration that observed \<open>stopped\<close>.
\<close>

theorem ensureInstanceRunning_stopped_pending_pending_running:
  assumes "getInstanceState (response p1) = Inr (Some stopped)" and "startRejected p1 = None"
    and "getInstanceState (response p2) = Inr (Some pending)"
    and "getInstanceState (response p3) = Inr (Some pending)"
    and "getInstanceState (response p4) = Inr (Some running)"
    and "now p1 - st \<le> t" and "now p2 - st \<le> t" and "now p3 - st \<le> t"
  shows "ensureInstanceRunning i t st [p1, p2, p3, p4] =
           ([[DescribeInstances i, ConsoleLog (CurrentBastionState (Some stopped)),
              ConsoleLog (BastionStarting i (Some stopped)), StartInstances i, Sleep 5000],
             [DescribeInstances i, ConsoleLog (CurrentBastionState (Some pending)), Sleep 5000],
             [DescribeInstances i, ConsoleLog (CurrentBastionState (Some pending)), Sleep 5000],
             [DescribeInstances i, ConsoleLog (CurrentBastionState (Some running)),
              ConsoleLog (BastionIsRunning i)]], Returned ()) \<and>
         snd (ensureInstanceRunning i t st [p1, p2, p3]) = Unfinished \<and>
         length (filter isStartRequest
                   (concat (fst (ensureInstanceRunning i t st [p1, p2, p3, p4])))) = 1 \<and>
         length (filter isSleep
                   (concat (fst (ensureInstanceRunning i t st [p1, p2, p3, p4])))) = 3"
  using assms by (simp add: pollIteration_def)

theorem ensureInstanceRunning_stopped_pending_pending_running_witness:
  "snd (ensureInstanceRunning ''i-0bastion'' 300000 0
          [observe stopped 2, observe pending 5003, observe pending 10004,
           observe running 15005]) = Returned () \<and>
   snd (ensureInstanceRunning ''i-0bastion'' 300000 0
          [observe stopped 2, observe pending 5003, observe pending 10004]) = Unfinished \<and>
   length (filter isStartRequest
             (concat (fst (ensureInstanceRunning ''i-0bastion'' 300000 0
                [observe stopped 2, observe pending 5003, observe pending 10004,
                 observe running 15005])))) = 1"
proof -
  have s: "startRejected (observe stopped 2) = None"
    and n: "now (observe stopped 2) - 0 \<le> 300000" "now (observe pending 5003) - 0 \<le> 300000"
      "now (observe pending 10004) - 0 \<le> 300000"
    by (simp_all add: observe_def)
  from ensureInstanceRunning_stopped_pending_pending_running[OF getInstanceState_observe s
         getInstanceState_observe getInstanceState_observe getInstanceState_observe n,
         of "''i-0bastion''" 15005]
  show ?thesis by simp
qed

subsection \<open>Signal handlers and the exit observer\<close>

lemma demoSession_state:
  "demoSession =
     \<lparr>ec2Global = Some ''us-east-1'', bastionIdGlobal = Some ''i-0bastion'',
      childGlobal = Some \<lparr>killed = False, exited = False\<rparr>,
      exitObserver = Some ''i-0bastion'', awaits = [],
      trace =
        [DescribeStacks ''VersoStat-AccessStack-prod'',
         DescribeStacks ''VersoStat-DatabaseStack-prod'',
         DescribeInstances ''i-0bastion'',
         ConsoleLog (CurrentBastionState (Some running)),
         ConsoleLog (BastionIsRunning ''i-0bastion''), Sleep 10000,
         ConsoleLog (PortForwardParameters ''us-east-1'' ''i-0bastion'' ''db.internal''
                       (Finite 5439)),
         Spawn ''aws''
          [''ssm'', ''start-session'', ''--region'', ''us-east-1'',
           ''--target'', ''i-0bastion'', ''--document-name'',
           ''AWS-StartPortForwardingSessionToRemoteHost'', ''--parameters'']
          \<lparr>host = [''db.internal''], portNumber = [''5432''], localPortNumber = [Finite 5439]\<rparr>,
         ConsoleLog (WhenConnected (Finite 5439))],
      exitCode = None\<rparr>"
  by (simp add: demoSession_def program_def main_def parseArgs_def parseArgsWith_def get_def
        orElse_def truthy_def falsyNumber_def isNaN_def getStackOutput_def deployed_def
        elemAt_def pollIteration_def getInstanceState_observe emit_def initial_def)

lemma demoSession_fields:
  "exitCode demoSession = None"
  "ec2Global demoSession = Some ''us-east-1''"
  "bastionIdGlobal demoSession = Some ''i-0bastion''"
  "childGlobal demoSession = Some \<lparr>killed = False, exited = False\<rparr>"
  "exitObserver demoSession = Some ''i-0bastion''"
  "awaits demoSession = []"
  "filter isStopRequest (trace demoSession) = []"
  "filter isKill (trace demoSession) = []"
  by (simp_all add: demoSession_state)

lemma cleanupAndExit_tracking:
  assumes "ec2Global s = Some r" and "bastionIdGlobal s = Some b" and "b \<noteq> []"
  shows "exitCode (cleanupAndExit code s) = exitCode s"
    and "ec2Global (cleanupAndExit code s) = Some r"
    and "bastionIdGlobal (cleanupAndExit code s) = Some b"
    and "exitObserver (cleanupAndExit code s) = exitObserver s"
    and "awaits (cleanupAndExit code s) = awaits s @ [CleanupAwaitsStop code]"
    and "filter isStopRequest (trace (cleanupAndExit code s)) =
           filter isStopRequest (trace s) @ [StopInstances b]"
    and "childGlobal (cleanupAndExit code s) =
           map_option (\<lambda>c. c\<lparr>killed := killed c \<or> \<not> exited c\<rparr>) (childGlobal s)"
    and "filter isKill (trace (cleanupAndExit code s)) =
           filter isKill (trace s) @
           (case childGlobal s of
              None \<Rightarrow> []
            | Some c \<Rightarrow> if killed c then [] else [Kill ''SIGINT''])"
  using assms
  by (auto simp: cleanupAndExit_def Let_def stopInstance_def split: option.splits)

lemma cleanupAndExit_untracked:
  assumes "ec2Global s = None \<or> bastionIdGlobal s = None \<or> bastionIdGlobal s = Some []"
  shows "exitCode (cleanupAndExit code s) = Some code"
  using assms
  by (auto simp: cleanupAndExit_def Let_def processExit_def split: option.splits)

lemma onSignal_code: "onSignal sg s = cleanupAndExit (signalCode sg) s"
  by (cases sg) simp_all

lemma run_exited: "exitCode s \<noteq> None \<Longrightarrow> run es s = s"
  by (induction es) (simp_all add: step_def)

lemma run_append: "run (xs @ ys) s = run ys (run xs s)"
  by (induction xs arbitrary: s) simp_all

lemma run_signals:
  assumes "exitCode s = None" and "ec2Global s = Some r" and "bastionIdGlobal s = Some b"
    and "b \<noteq> []" and "childGlobal s = Some c" and "\<not> exited c"
  shows "exitCode (run (map Signal sigs) s) = None \<and>
         length (filter isStopRequest (trace (run (map Signal sigs) s))) =
           length (filter isStopRequest (trace s)) + length sigs \<and>
         length (filter isKill (trace (run (map Signal sigs) s))) =
           length (filter isKill (trace s)) + (if killed c \<or> sigs = [] then 0 else 1) \<and>
         length (awaits (run (map Signal sigs) s)) = length (awaits s) + length sigs"
  using assms
proof (induction sigs arbitrary: s c)
  case Nil
  then show ?case by simp
next
  case (Cons sg sigs)
  let ?s1 = "cleanupAndExit (signalCode sg) s"
  note t = cleanupAndExit_tracking[OF Cons.prems(2,3,4), of "signalCode sg"]
  have st: "step (Signal sg) s = ?s1"
    using Cons.prems(1) by (simp add: step_def onSignal_code)
  have c1: "childGlobal ?s1 = Some (c\<lparr>killed := True\<rparr>)"
    using t(7) Cons.prems(5,6) by simp
  have e1: "exitCode ?s1 = None" using t(1) Cons.prems(1) by simp
  have x1: "\<not> exited (c\<lparr>killed := True\<rparr>)" using Cons.prems(6) by simp
  from Cons.IH[OF e1 t(2) t(3) Cons.prems(4) c1 x1]
  show ?case
    using st t(5,6,8) Cons.prems(5) by simp
qed

lemma signal_settle_trace:
  assumes "exitCode s = None" and "ec2Global s = Some r" and "bastionIdGlobal s = Some b"
    and "b \<noteq> []"
  shows "exitCode (run [Signal sg, StopSettled (length (awaits s)) res] s) = Some (signalCode sg)"
    and "trace (run [Signal sg, StopSettled (length (awaits s)) res] s) =
           trace (step (Signal sg) s) @
             [case res of None \<Rightarrow> ConsoleLog BastionStopped
                        | Some e \<Rightarrow> ConsoleError (FailedToStopBastion e),
              Exit (signalCode sg)]"
    and "filter isStopRequest (trace (run [Signal sg, StopSettled (length (awaits s)) res] s)) =
           filter isStopRequest (trace s) @ [StopInstances b]"
proof -
  note t = cleanupAndExit_tracking[OF assms(2,3,4), of "signalCode sg"]
  let ?s1 = "cleanupAndExit (signalCode sg) s"
  have st: "step (Signal sg) s = ?s1" using assms(1) by (simp add: step_def onSignal_code)
  have e1: "exitCode ?s1 = None" using t(1) assms(1) by simp
  show "exitCode (run [Signal sg, StopSettled (length (awaits s)) res] s) = Some (signalCode sg)"
    using st e1 t(5) by (simp add: step_def resume_def processExit_def emit_def)
  show "trace (run [Signal sg, StopSettled (length (awaits s)) res] s) =
           trace (step (Signal sg) s) @
             [case res of None \<Rightarrow> ConsoleLog BastionStopped
                        | Some e \<Rightarrow> ConsoleError (FailedToStopBastion e),
              Exit (signalCode sg)]"
    using st e1 t(5) by (simp add: step_def resume_def processExit_def emit_def)
  then show "filter isStopRequest (trace (run [Signal sg, StopSettled (length (awaits s)) res] s)) =
           filter isStopRequest (trace s) @ [StopInstances b]"
    using st t(6) by (simp split: option.splits)
qed

lemma signal_then_settle:
  assumes "exitCode s = None"
  shows "exitStatus (run [Signal sg, StopSettled (length (awaits s)) r] s) = Some (signalCode sg)"
proof (cases "\<exists>e b. ec2Global s = Some e \<and> bastionIdGlobal s = Some b \<and> b \<noteq> []")
  case True
  then obtain e b where g: "ec2Global s = Some e" "bastionIdGlobal s = Some b" "b \<noteq> []"
    by blast
  from signal_settle_trace(1)[OF assms g] show ?thesis
    by (simp add: exitStatus_def)
next
  case False
  then have u: "ec2Global s = None \<or> bastionIdGlobal s = None \<or> bastionIdGlobal s = Some []"
    by (cases "ec2Global s"; cases "bastionIdGlobal s") auto
  have st: "step (Signal sg) s = cleanupAndExit (signalCode sg) s"
    using assms by (simp add: step_def onSignal_code)
  show ?thesis
    using cleanupAndExit_untracked[OF u, of "signalCode sg"] st
    by (simp add: step_def exitStatus_def)
qed

lemma childExit_step:
  assumes "exitCode s = None" and "childGlobal s = Some c" and "\<not> exited c"
    and "exitObserver s = Some b"
  shows "step (ChildExit code) s =
           s\<lparr>childGlobal := Some (c\<lparr>exited := True\<rparr>),
             trace := trace s @ [ConsoleLog (SessionExited code), ConsoleLog (StoppingBastion b),
                                 StopInstances b],
             awaits := awaits s @ [ObserverAwaitsStop]\<rparr>"
  using assms by (simp add: step_def onChildExit_def stopInstance_def)

lemma childExit_then_settle:
  assumes "exitCode s = None" and "childGlobal s = Some c" and "\<not> exited c"
    and "exitObserver s = Some b" and "awaits s = []"
  shows "exitStatus (run [ChildExit code, StopSettled 0 r] s) = Some 0"
    and "exitCode (run [ChildExit code, StopSettled 0 r] s) = None"
    and "trace (run [ChildExit code, StopSettled 0 r] s) =
           trace s @ [ConsoleLog (SessionExited code), ConsoleLog (StoppingBastion b),
                      StopInstances b,
                      case r of None \<Rightarrow> ConsoleLog BastionStopped
                              | Some e \<Rightarrow> ConsoleError (FailedToStopBastion e)]"
proof -
  let ?s1 = "s\<lparr>childGlobal := Some (c\<lparr>exited := True\<rparr>),
             trace := trace s @ [ConsoleLog (SessionExited code), ConsoleLog (StoppingBastion b),
                                 StopInstances b],
             awaits := awaits s @ [ObserverAwaitsStop]\<rparr>"
  have s1: "run [ChildExit code, StopSettled 0 r] s = step (StopSettled 0 r) ?s1"
    using childExit_step[OF assms(1-4), of code] by simp
  show "exitStatus (run [ChildExit code, StopSettled 0 r] s) = Some 0"
    unfolding s1 using assms(1,5) by (simp add: step_def resume_def emit_def exitStatus_def)
  show "exitCode (run [ChildExit code, StopSettled 0 r] s) = None"
    unfolding s1 using assms(1,5) by (simp add: step_def resume_def emit_def)
  show "trace (run [ChildExit code, StopSettled 0 r] s) =
           trace s @ [ConsoleLog (SessionExited code), ConsoleLog (StoppingBastion b),
                      StopInstances b,
                      case r of None \<Rightarrow> ConsoleLog BastionStopped
                              | Some e \<Rightarrow> ConsoleError (FailedToStopBastion e)]"
    unfolding s1 using assms(1,5) by (simp add: step_def resume_def emit_def)
qed

text \<open>
  Claim C1, as stated, fails: \<open>cleanupAndExit\<close> has no single-shot guard. After the
  session is up, an interrupt followed by a terminate signal before the first stop
  request has settled leaves two stop requests sent and two calls of \<open>cleanupAndExit\<close>
  suspended at their stop request.
\<close>

theorem two_signals_two_stop_requests:
  "filter isStopRequest (trace demoSession) = [] \<and>
   filter isStopRequest (trace (run [Signal SIGINT, Signal SIGTERM] demoSession)) =
     [StopInstances ''i-0bastion'', StopInstances ''i-0bastion''] \<and>
   awaits (run [Signal SIGINT, Signal SIGTERM] demoSession) =
     [CleanupAwaitsStop 130, CleanupAwaitsStop 143]"
  by (simp add: demoSession_state step_def cleanupAndExit_def stopInstance_def)

text \<open>
  Claim C1, amended. The stop part of the teardown body runs once per trigger call, not
  once per process: from any state in which the process has not exited, the instance is
  tracked and the child is alive, \<open>N\<close> signals (interrupt, terminate, suspend, in any
  mix) arriving before any stop request has settled send \<open>N\<close> stop requests and leave
  \<open>N\<close> more calls suspended, with the process still running. Only the request to
  terminate the child is sent at most once, guarded by the child's \<open>killed\<close> flag. When
  instead the first trigger's stop request settles before anything else happens, the
  process exits there, and whatever arrives later adds nothing: one stop request in all.
\<close>

theorem signals_each_send_stop_request:
  assumes "exitCode s = None" and "ec2Global s = Some r" and "bastionIdGlobal s = Some b"
    and "b \<noteq> []" and "childGlobal s = Some c" and "\<not> exited c"
  shows "exitCode (run (map Signal sigs) s) = None \<and>
         length (filter isStopRequest (trace (run (map Signal sigs) s))) =
           length (filter isStopRequest (trace s)) + length sigs \<and>
         length (filter isKill (trace (run (map Signal sigs) s))) =
           length (filter isKill (trace s)) + (if killed c \<or> sigs = [] then 0 else 1) \<and>
         length (awaits (run (map Signal sigs) s)) = length (awaits s) + length sigs \<and>
         length (filter isStopRequest
                   (trace (run ([Signal sg, StopSettled (length (awaits s)) res] @ es) s))) =
           length (filter isStopRequest (trace s)) + 1"
proof -
  have "exitCode (run [Signal sg, StopSettled (length (awaits s)) res] s) \<noteq> None"
    using signal_settle_trace(1)[OF assms(1-4)] by simp
  then have "run ([Signal sg, StopSettled (length (awaits s)) res] @ es) s =
             run [Signal sg, StopSettled (length (awaits s)) res] s"
    unfolding run_append by (rule run_exited)
  then show ?thesis
    using run_signals[OF assms, of sigs] signal_settle_trace(3)[OF assms(1-4), of sg res]
    by simp
qed

theorem signals_each_send_stop_request_witness:
  "length (filter isStopRequest
      (trace (run (map Signal [SIGINT, SIGTERM, SIGTSTP]) demoSession))) = 3 \<and>
   length (filter isKill (trace (run (map Signal [SIGINT, SIGTERM, SIGTSTP]) demoSession))) = 1 \<and>
   exitCode (run (map Signal [SIGINT, SIGTERM, SIGTSTP]) demoSession) = None \<and>
   length (filter isStopRequest
      (trace (run ([Signal SIGINT, StopSettled 0 None] @ [Signal SIGTERM, ChildExit None])
                demoSession))) = 1"
proof -
  have h: "''i-0bastion'' \<noteq> []" "\<not> exited \<lparr>killed = False, exited = False\<rparr>"
    by simp_all
  from signals_each_send_stop_request[OF demoSession_fields(1,2,3) h(1) demoSession_fields(4) h(2),
         of "[SIGINT, SIGTERM, SIGTSTP]" SIGINT None "[Signal SIGTERM, ChildExit None]"]
       demoSession_fields(6,7,8)
  show ?thesis by simp
qed

text \<open>
  Claim C2, as stated, fails: the exit observer does not hand over to \<open>cleanupAndExit\<close>.
  When the child of the running session exits with code 0, the observer itself logs and
  sends the stop request and is then suspended at it; no call of \<open>cleanupAndExit\<close> is made
  (which would have logged "Stopping bastion before exit..." and been suspended as
  \<open>CleanupAwaitsStop\<close>).
\<close>

theorem exit_observer_stops_instance_itself:
  "step (ChildExit (Some 0)) demoSession =
     demoSession\<lparr>childGlobal := Some \<lparr>killed = False, exited = True\<rparr>,
                 trace := trace demoSession @
                   [ConsoleLog (SessionExited (Some 0)),
                    ConsoleLog (StoppingBastion ''i-0bastion''), StopInstances ''i-0bastion''],
                 awaits := [ObserverAwaitsStop]\<rparr>"
  by (simp add: demoSession_state step_def onChildExit_def stopInstance_def)

text \<open>
  Claim C2, amended. When the tunnel child process terminates (with any exit code, or
  none), the registered exit observer logs the code and calls the instance-stop operation
  itself, once; it does not call \<open>cleanupAndExit\<close>, sends no kill and does not end the
  process. It shares no guard with \<open>cleanupAndExit\<close>: a signal that arrives after the
  child's exit sends a second stop request for the same instance.
\<close>

theorem exit_observer_calls_stopInstance:
  assumes "exitCode s = None" and "childGlobal s = Some c" and "\<not> exited c"
    and "exitObserver s = Some b" and "ec2Global s = Some r" and "bastionIdGlobal s = Some b"
    and "b \<noteq> []"
  shows "step (ChildExit code) s =
           s\<lparr>childGlobal := Some (c\<lparr>exited := True\<rparr>),
             trace := trace s @ [ConsoleLog (SessionExited code), ConsoleLog (StoppingBastion b),
                                 StopInstances b],
             awaits := awaits s @ [ObserverAwaitsStop]\<rparr> \<and>
         filter isStopRequest (trace (run [ChildExit code, Signal sg] s)) =
           filter isStopRequest (trace s) @ [StopInstances b, StopInstances b]"
proof -
  let ?s1 = "s\<lparr>childGlobal := Some (c\<lparr>exited := True\<rparr>),
             trace := trace s @ [ConsoleLog (SessionExited code), ConsoleLog (StoppingBastion b),
                                 StopInstances b],
             awaits := awaits s @ [ObserverAwaitsStop]\<rparr>"
  have s1: "step (ChildExit code) s = ?s1"
    by (rule childExit_step[OF assms(1-4)])
  have e1: "exitCode ?s1 = None" using assms(1) by simp
  have g: "ec2Global ?s1 = Some r" "bastionIdGlobal ?s1 = Some b" using assms(5,6) by simp_all
  have "step (Signal sg) ?s1 = cleanupAndExit (signalCode sg) ?s1"
    using e1 by (simp add: step_def onSignal_code)
  with cleanupAndExit_tracking(6)[OF g assms(7), of "signalCode sg"] s1
  show ?thesis by simp
qed

theorem exit_observer_calls_stopInstance_witness:
  "step (ChildExit (Some 1)) demoSession =
     demoSession\<lparr>childGlobal := Some \<lparr>killed = False, exited = True\<rparr>,
                 trace := trace demoSession @
                   [ConsoleLog (SessionExited (Some 1)),
                    ConsoleLog (StoppingBastion ''i-0bastion''), StopInstances ''i-0bastion''],
                 awaits := [ObserverAwaitsStop]\<rparr> \<and>
   filter isStopRequest (trace (run [ChildExit (Some 1), Signal SIGTERM] demoSession)) =
     [StopInstances ''i-0bastion'', StopInstances ''i-0bastion'']"
proof -
  have h: "\<not> exited \<lparr>killed = False, exited = False\<rparr>" "''i-0bastion'' \<noteq> []"
    by simp_all
  note inst = exit_observer_calls_stopInstance[OF demoSession_fields(1,4) h(1)
                demoSession_fields(5,2,3) h(2), of "Some 1" SIGTERM]
  show ?thesis
  proof (intro conjI)
    show "step (ChildExit (Some 1)) demoSession =
       demoSession\<lparr>childGlobal := Some \<lparr>killed = False, exited = True\<rparr>,
                 trace := trace demoSession @
                   [ConsoleLog (SessionExited (Some 1)),
                    ConsoleLog (StoppingBastion ''i-0bastion''), StopInstances ''i-0bastion''],
                 awaits := [ObserverAwaitsStop]\<rparr>"
      using inst[THEN conjunct1] demoSession_fields(6) by simp
    show "filter isStopRequest (trace (run [ChildExit (Some 1), Signal SIGTERM] demoSession)) =
       [StopInstances ''i-0bastion'', StopInstances ''i-0bastion'']"
      using inst[THEN conjunct2] demoSession_fields(7) by simp
  qed
qed

subsection \<open>main and the exit status\<close>

lemma getStackOutput_trace: "fst (getStackOutput cf n k) = [DescribeStacks n]"
  by (simp add: getStackOutput_def)

lemma getStackOutput_nonempty: "snd (getStackOutput cf n k) = Inr v \<Longrightarrow> v \<noteq> []"
  by (auto simp: getStackOutput_def split: sum.splits option.splits if_splits)

lemma main_throws:
  "snd (main N env argv cf st polls) = Some e \<longleftrightarrow>
     parseArgs N env argv = Inl e \<or>
     (\<exists>a. parseArgs N env argv = Inr a \<and>
        (snd (getStackOutput cf (accessStack a) ''VersoStatBastionInstanceId'') = Inl e \<or>
         (\<exists>b. snd (getStackOutput cf (accessStack a) ''VersoStatBastionInstanceId'') = Inr b \<and>
            (snd (getStackOutput cf (dbStack a) ''VersoStatDbHost'') = Inl e \<or>
             (\<exists>d. snd (getStackOutput cf (dbStack a) ''VersoStatDbHost'') = Inr d \<and>
                snd (ensureInstanceRunning b (5 * 60 * 1000) st polls) = Thrown e)))))"
  by (auto simp: main_def Let_def split: sum.splits prod.splits outcome.splits)

lemma program_thrown:
  "snd (main N env argv cf st polls) = Some e \<Longrightarrow>
     exitStatus (program N env argv cf st polls) = Some 1 \<and>
     trace (program N env argv cf st polls) =
       trace (fst (main N env argv cf st polls)) @ [ConsoleError (Uncaught e), Exit 1]"
  by (cases "main N env argv cf st polls")
     (simp add: program_def processExit_def emit_def exitStatus_def)

lemma program_not_thrown:
  "snd (main N env argv cf st polls) = None \<Longrightarrow>
     program N env argv cf st polls = fst (main N env argv cf st polls)"
  by (cases "main N env argv cf st polls") (simp add: program_def)

lemma program_instance_calls:
  "(\<exists>x \<in> set (trace (program N env argv cf st polls)). isInstanceCall x) \<longleftrightarrow>
   (\<exists>x \<in> set (trace (fst (main N env argv cf st polls))). isInstanceCall x)"
proof (cases "snd (main N env argv cf st polls)")
  case None
  then show ?thesis by (simp add: program_not_thrown)
next
  case (Some e)
  from program_thrown[OF this] show ?thesis by auto
qed

lemma program_trace_prefix:
  "\<exists>rest. trace (program N env argv cf st polls) = trace (fst (main N env argv cf st polls)) @ rest"
proof (cases "snd (main N env argv cf st polls)")
  case None
  then show ?thesis by (simp add: program_not_thrown)
next
  case (Some e)
  from program_thrown[OF this] show ?thesis by simp
qed

lemma main_lookup_failure_trace:
  assumes "parseArgs N env argv = Inr a"
    and "snd (getStackOutput cf (accessStack a) ''VersoStatBastionInstanceId'') = Inl e \<or>
         snd (getStackOutput cf (dbStack a) ''VersoStatDbHost'') = Inl e"
  shows "\<exists>e'. snd (main N env argv cf st polls) = Some e' \<and>
           (\<forall>x \<in> set (trace (fst (main N env argv cf st polls))). \<not> isInstanceCall x)"
proof (cases "getStackOutput cf (accessStack a) ''VersoStatBastionInstanceId''")
  case (Pair t1 r1)
  then have t1: "t1 = [DescribeStacks (accessStack a)]"
    using getStackOutput_trace[of cf "accessStack a" "''VersoStatBastionInstanceId''"] by simp
  show ?thesis
  proof (cases r1)
    case (Inl e1)
    with Pair t1 assms(1) show ?thesis
      by (simp add: main_def emit_def initial_def)
  next
    case (Inr b)
    with Pair assms(2) have f2: "snd (getStackOutput cf (dbStack a) ''VersoStatDbHost'') = Inl e"
      by simp
    obtain t2 where p2: "getStackOutput cf (dbStack a) ''VersoStatDbHost'' = (t2, Inl e)"
      using f2 by (cases "getStackOutput cf (dbStack a) ''VersoStatDbHost''") simp
    then have t2: "t2 = [DescribeStacks (dbStack a)]"
      using getStackOutput_trace[of cf "dbStack a" "''VersoStatDbHost''"] by simp
    from Pair Inr p2 t1 t2 assms(1) show ?thesis
      by (simp add: main_def emit_def initial_def)
  qed
qed

lemma main_trace_prefix:
  assumes "parseArgs N env argv = Inr a"
    and "\<exists>x \<in> set (trace (fst (main N env argv cf st polls))). isInstanceCall x"
  shows "\<exists>b d rest. snd (getStackOutput cf (accessStack a) ''VersoStatBastionInstanceId'') = Inr b \<and>
           snd (getStackOutput cf (dbStack a) ''VersoStatDbHost'') = Inr d \<and>
           trace (fst (main N env argv cf st polls)) =
             [DescribeStacks (accessStack a), DescribeStacks (dbStack a)] @ rest"
proof (cases "getStackOutput cf (accessStack a) ''VersoStatBastionInstanceId''")
  case (Pair t1 r1)
  then have t1: "t1 = [DescribeStacks (accessStack a)]"
    using getStackOutput_trace[of cf "accessStack a" "''VersoStatBastionInstanceId''"] by simp
  show ?thesis
  proof (cases r1)
    case (Inl e1)
    with Pair t1 assms show ?thesis
      by (simp add: main_def emit_def initial_def)
  next
    case (Inr b)
    obtain t2 r2 where p2: "getStackOutput cf (dbStack a) ''VersoStatDbHost'' = (t2, r2)"
      by fastforce
    then have t2: "t2 = [DescribeStacks (dbStack a)]"
      using getStackOutput_trace[of cf "dbStack a" "''VersoStatDbHost''"] by simp
    show ?thesis
    proof (cases r2)
      case (Inl e2)
      with Pair Inr p2 t1 t2 assms show ?thesis
        by (simp add: main_def emit_def initial_def)
    next
      case r2: (Inr d)
      with Pair Inr p2 t1 t2 assms(1) show ?thesis
        by (auto simp: main_def emit_def initial_def split: prod.splits outcome.splits)
    qed
  qed
qed

text \<open>Every state in which the script has spawned the session client is one the
  properties of the handlers below apply to: the process is alive, the instance is
  tracked under a non-empty id, the child is alive and unkilled, its observer is
  registered with that id, and nothing is suspended.\<close>

lemma program_session:
  assumes "childGlobal (program N env argv cf st polls) = Some c"
  shows "exitCode (program N env argv cf st polls) = None \<and>
         c = \<lparr>killed = False, exited = False\<rparr> \<and>
         awaits (program N env argv cf st polls) = [] \<and>
         (\<exists>r b. ec2Global (program N env argv cf st polls) = Some r \<and>
                bastionIdGlobal (program N env argv cf st polls) = Some b \<and> b \<noteq> [] \<and>
                exitObserver (program N env argv cf st polls) = Some b)"
proof -
  have ne: "\<And>a t1 b. getStackOutput cf (accessStack a) ''VersoStatBastionInstanceId'' = (t1, Inr b)
            \<Longrightarrow> b \<noteq> []"
    using getStackOutput_nonempty by (metis snd_conv)
  from assms show ?thesis
    by (auto simp: program_def main_def Let_def emit_def initial_def processExit_def
             dest: ne
             split: sum.splits prod.splits outcome.splits option.splits)
qed

lemma demo_parseArgs:
  "parseArgs (\<lambda>s. NaN) None [''node'', ''db-tunnel.ts''] =
     Inr \<lparr>region = ''us-east-1'', accessStack = ''VersoStat-AccessStack-prod'',
          dbStack = ''VersoStat-DatabaseStack-prod'', localPort = Finite 5439\<rparr>"
  by (simp add: parseArgs_def parseArgsWith_def get_def orElse_def truthy_def falsyNumber_def
        isNaN_def)

lemma withoutDatabase_lookups:
  "snd (getStackOutput withoutDatabase ''VersoStat-AccessStack-prod''
          ''VersoStatBastionInstanceId'') = Inr ''i-0bastion''"
  "snd (getStackOutput withoutDatabase ''VersoStat-DatabaseStack-prod'' ''VersoStatDbHost'') =
     Inl (StackNotFound ''VersoStat-DatabaseStack-prod'')"
  by (simp_all add: getStackOutput_def withoutDatabase_def deployed_def elemAt_def)

text \<open>
  Claim C6. The status the process ends with follows from what ended it. A signal handled
  while the process is alive leads, once the stop request of that handler has settled
  (or at once when no instance is tracked yet), to \<open>process.exit\<close> with 130 for the
  interrupt, 143 for the terminate and 148 for the suspend signal. After the child of a
  running session exits and the observer's stop request succeeds, nothing is left to wait
  for and the script has not called \<open>process.exit\<close>, so the runtime ends the process with
  status 0. Any error thrown by \<open>main\<close> before the session client is spawned --- by
  \<open>parseArgs\<close>, by either lookup, or by \<open>ensureInstanceRunning\<close> --- ends the process with
  status 1.
\<close>

theorem exit_status_by_cause:
  "(exitCode s = None \<longrightarrow>
      exitStatus (run [Signal SIGINT, StopSettled (length (awaits s)) res] s) = Some 130 \<and>
      exitStatus (run [Signal SIGTERM, StopSettled (length (awaits s)) res] s) = Some 143 \<and>
      exitStatus (run [Signal SIGTSTP, StopSettled (length (awaits s)) res] s) = Some 148) \<and>
   (exitCode s = None \<and> childGlobal s = Some c \<and> \<not> exited c \<and> exitObserver s = Some b \<and>
    awaits s = [] \<longrightarrow>
      exitStatus (run [ChildExit code, StopSettled 0 None] s) = Some 0) \<and>
   (parseArgs N env argv = Inl e \<or>
    (\<exists>a. parseArgs N env argv = Inr a \<and>
       (snd (getStackOutput cf (accessStack a) ''VersoStatBastionInstanceId'') = Inl e \<or>
        (\<exists>i. snd (getStackOutput cf (accessStack a) ''VersoStatBastionInstanceId'') = Inr i \<and>
           (snd (getStackOutput cf (dbStack a) ''VersoStatDbHost'') = Inl e \<or>
            (\<exists>d. snd (getStackOutput cf (dbStack a) ''VersoStatDbHost'') = Inr d \<and>
               snd (ensureInstanceRunning i (5 * 60 * 1000) st polls) = Thrown e))))) \<longrightarrow>
      exitStatus (program N env argv cf st polls) = Some 1)"
proof (intro conjI impI)
  assume "exitCode s = None"
  from signal_then_settle[OF this]
  show "exitStatus (run [Signal SIGINT, StopSettled (length (awaits s)) res] s) = Some 130"
    and "exitStatus (run [Signal SIGTERM, StopSettled (length (awaits s)) res] s) = Some 143"
    and "exitStatus (run [Signal SIGTSTP, StopSettled (length (awaits s)) res] s) = Some 148"
    by (metis signalCode.simps)+
next
  assume "exitCode s = None \<and> childGlobal s = Some c \<and> \<not> exited c \<and> exitObserver s = Some b \<and>
    awaits s = []"
  then show "exitStatus (run [ChildExit code, StopSettled 0 None] s) = Some 0"
    using childExit_then_settle(1) by blast
next
  assume "parseArgs N env argv = Inl e \<or>
    (\<exists>a. parseArgs N env argv = Inr a \<and>
       (snd (getStackOutput cf (accessStack a) ''VersoStatBastionInstanceId'') = Inl e \<or>
        (\<exists>i. snd (getStackOutput cf (accessStack a) ''VersoStatBastionInstanceId'') = Inr i \<and>
           (snd (getStackOutput cf (dbStack a) ''VersoStatDbHost'') = Inl e \<or>
            (\<exists>d. snd (getStackOutput cf (dbStack a) ''VersoStatDbHost'') = Inr d \<and>
               snd (ensureInstanceRunning i (5 * 60 * 1000) st polls) = Thrown e)))))"
  then have "snd (main N env argv cf st polls) = Some e"
    unfolding main_throws .
  from program_thrown[OF this] show "exitStatus (program N env argv cf st polls) = Some 1"
    by simp
qed


theorem exit_status_by_cause_witness:
  "exitStatus (run [Signal SIGINT, StopSettled 0 None] demoSession) = Some 130 \<and>
   exitStatus (run [Signal SIGTERM, StopSettled 0 None] demoSession) = Some 143 \<and>
   exitStatus (run [Signal SIGTSTP, StopSettled 0 None] demoSession) = Some 148 \<and>
   exitStatus (run [ChildExit (Some 0), StopSettled 0 None] demoSession) = Some 0 \<and>
   snd (getStackOutput withoutDatabase ''VersoStat-DatabaseStack-prod'' ''VersoStatDbHost'') =
     Inl (StackNotFound ''VersoStat-DatabaseStack-prod'') \<and>
   exitStatus (program (\<lambda>s. NaN) None [''node'', ''db-tunnel.ts''] withoutDatabase 0 []) = Some 1"
proof -
  note inst = exit_status_by_cause[where s = demoSession and res = None
                   and c = "\<lparr>killed = False, exited = False\<rparr>" and b = "''i-0bastion''"
                   and code = "Some 0" and N = "\<lambda>s. NaN" and env = None
                   and argv = "[''node'', ''db-tunnel.ts'']"
                   and e = "StackNotFound ''VersoStat-DatabaseStack-prod''"
                   and cf = withoutDatabase and st = 0 and polls = "[]"]
  have sig: "exitStatus (run [Signal SIGINT, StopSettled 0 None] demoSession) = Some 130 \<and>
      exitStatus (run [Signal SIGTERM, StopSettled 0 None] demoSession) = Some 143 \<and>
      exitStatus (run [Signal SIGTSTP, StopSettled 0 None] demoSession) = Some 148"
    using inst[THEN conjunct1] demoSession_fields(1,6) by simp
  have chl: "exitStatus (run [ChildExit (Some 0), StopSettled 0 None] demoSession) = Some 0"
    using inst[THEN conjunct2, THEN conjunct1] demoSession_fields(1,4,5,6) by simp
  have err: "exitStatus (program (\<lambda>s. NaN) None [''node'', ''db-tunnel.ts''] withoutDatabase 0 [])
               = Some 1"
    using inst[THEN conjunct2, THEN conjunct2] demo_parseArgs withoutDatabase_lookups by simp
  from sig chl err withoutDatabase_lookups(2) show ?thesis by simp
qed

text \<open>
  Claim C7. Once the arguments are parsed, a failure of either lookup (the instance id in
  the access stack, the database host in the database stack) ends the process with
  status 1 without any call to the instance API: no describe, no start and no stop
  request appears among its actions. Conversely, whenever the run makes a call to the
  instance API, both lookups have succeeded and the two \<open>DescribeStacks\<close> calls are the
  first two actions of the run.
\<close>

theorem lookups_precede_instance_calls:
  assumes "parseArgs N env argv = Inr a"
  shows "(snd (getStackOutput cf (accessStack a) ''VersoStatBastionInstanceId'') = Inl e \<or>
          snd (getStackOutput cf (dbStack a) ''VersoStatDbHost'') = Inl e \<longrightarrow>
            exitStatus (program N env argv cf st polls) = Some 1 \<and>
            (\<forall>x \<in> set (trace (program N env argv cf st polls)). \<not> isInstanceCall x)) \<and>
         ((\<exists>x \<in> set (trace (program N env argv cf st polls)). isInstanceCall x) \<longrightarrow>
            (\<exists>i d rest.
               snd (getStackOutput cf (accessStack a) ''VersoStatBastionInstanceId'') = Inr i \<and>
               snd (getStackOutput cf (dbStack a) ''VersoStatDbHost'') = Inr d \<and>
               trace (program N env argv cf st polls) =
                 [DescribeStacks (accessStack a), DescribeStacks (dbStack a)] @ rest))"
proof (intro conjI impI)
  assume f: "snd (getStackOutput cf (accessStack a) ''VersoStatBastionInstanceId'') = Inl e \<or>
          snd (getStackOutput cf (dbStack a) ''VersoStatDbHost'') = Inl e"
  from main_lookup_failure_trace[OF assms f, of st polls]
  obtain e' where th: "snd (main N env argv cf st polls) = Some e'"
    and no: "\<forall>x \<in> set (trace (fst (main N env argv cf st polls))). \<not> isInstanceCall x"
    by blast
  from program_thrown[OF th] show "exitStatus (program N env argv cf st polls) = Some 1"
    by simp
  from no program_instance_calls[of N env argv cf st polls]
  show "\<forall>x \<in> set (trace (program N env argv cf st polls)). \<not> isInstanceCall x"
    by blast
next
  assume "\<exists>x \<in> set (trace (program N env argv cf st polls)). isInstanceCall x"
  then have "\<exists>x \<in> set (trace (fst (main N env argv cf st polls))). isInstanceCall x"
    by (simp only: program_instance_calls)
  from main_trace_prefix[OF assms this]
  obtain i d rest where ok: "snd (getStackOutput cf (accessStack a) ''VersoStatBastionInstanceId'') = Inr i"
      "snd (getStackOutput cf (dbStack a) ''VersoStatDbHost'') = Inr d"
      "trace (fst (main N env argv cf st polls)) =
             [DescribeStacks (accessStack a), DescribeStacks (dbStack a)] @ rest"
    by blast
  obtain more where "trace (program N env argv cf st polls) =
      trace (fst (main N env argv cf st polls)) @ more"
    using program_trace_prefix by blast
  with ok show "\<exists>i d rest.
               snd (getStackOutput cf (accessStack a) ''VersoStatBastionInstanceId'') = Inr i \<and>
               snd (getStackOutput cf (dbStack a) ''VersoStatDbHost'') = Inr d \<and>
               trace (program N env argv cf st polls) =
                 [DescribeStacks (accessStack a), DescribeStacks (dbStack a)] @ rest"
    by simp
qed

theorem lookups_precede_instance_calls_witness:
  "parseArgs (\<lambda>s. NaN) None [''node'', ''db-tunnel.ts''] =
     Inr \<lparr>region = ''us-east-1'', accessStack = ''VersoStat-AccessStack-prod'',
          dbStack = ''VersoStat-DatabaseStack-prod'', localPort = Finite 5439\<rparr> \<and>
   snd (getStackOutput withoutDatabase ''VersoStat-DatabaseStack-prod'' ''VersoStatDbHost'') =
     Inl (StackNotFound ''VersoStat-DatabaseStack-prod'') \<and>
   exitStatus (program (\<lambda>s. NaN) None [''node'', ''db-tunnel.ts''] withoutDatabase 0
                 [observe stopped 1]) = Some 1 \<and>
   filter isInstanceCall
     (trace (program (\<lambda>s. NaN) None [''node'', ''db-tunnel.ts''] withoutDatabase 0
               [observe stopped 1])) = [] \<and>
   DescribeInstances ''i-0bastion'' \<in> set (trace demoSession) \<and>
   take 2 (trace demoSession) =
     [DescribeStacks ''VersoStat-AccessStack-prod'', DescribeStacks ''VersoStat-DatabaseStack-prod'']"
proof -
  note fail = lookups_precede_instance_calls[OF demo_parseArgs, where cf = withoutDatabase
                   and e = "StackNotFound ''VersoStat-DatabaseStack-prod''"
                   and st = 0 and polls = "[observe stopped 1]", THEN conjunct1]
  note ok = lookups_precede_instance_calls[OF demo_parseArgs, where cf = deployed and st = 0
                 and polls = "[observe running 1]", THEN conjunct2]
  have a: "exitStatus (program (\<lambda>s. NaN) None [''node'', ''db-tunnel.ts''] withoutDatabase 0
                 [observe stopped 1]) = Some 1 \<and>
   (\<forall>x \<in> set (trace (program (\<lambda>s. NaN) None [''node'', ''db-tunnel.ts''] withoutDatabase 0
                         [observe stopped 1])). \<not> isInstanceCall x)"
    using fail withoutDatabase_lookups(2) by simp
  have b: "DescribeInstances ''i-0bastion'' \<in> set (trace demoSession)"
    by (simp add: demoSession_state)
  then have "\<exists>x \<in> set (trace demoSession). isInstanceCall x"
    by (rule bexI[rotated]) simp
  with ok have "\<exists>rest. trace demoSession =
     [DescribeStacks ''VersoStat-AccessStack-prod'', DescribeStacks ''VersoStat-DatabaseStack-prod'']
       @ rest"
    unfolding demoSession_def by auto
  then have c: "take 2 (trace demoSession) =
     [DescribeStacks ''VersoStat-AccessStack-prod'', DescribeStacks ''VersoStat-DatabaseStack-prod'']"
    by auto
  from a b c demo_parseArgs withoutDatabase_lookups(2) show ?thesis
    by (simp add: filter_empty_conv)
qed

text \<open>
  Claim C9. If the stop request sent by \<open>cleanupAndExit\<close> is rejected, the continuation
  writes the failure to the error console and then calls \<open>process.exit\<close> with the code of
  the signal that triggered it: these are its only two actions, and the exit status is
  the one a fulfilled stop request leads to. Likewise, when the stop request sent by the
  exit observer of a running session is rejected, the observer only writes the failure
  to the error console, and the process ends with status 0 as it does after a fulfilled
  one.
\<close>

theorem stop_failure_logged_exit_code_kept:
  assumes "exitCode s = None" and "ec2Global s = Some r" and "bastionIdGlobal s = Some b"
    and "b \<noteq> []"
  shows "trace (run [Signal sg, StopSettled (length (awaits s)) (Some e)] s) =
           trace (run [Signal sg] s) @ [ConsoleError (FailedToStopBastion e), Exit (signalCode sg)] \<and>
         exitStatus (run [Signal sg, StopSettled (length (awaits s)) (Some e)] s) =
           Some (signalCode sg) \<and>
         exitStatus (run [Signal sg, StopSettled (length (awaits s)) None] s) =
           Some (signalCode sg) \<and>
         (childGlobal s = Some c \<and> \<not> exited c \<and> exitObserver s = Some b \<and> awaits s = [] \<longrightarrow>
            trace (run [ChildExit code, StopSettled 0 (Some e)] s) =
              trace (run [ChildExit code] s) @ [ConsoleError (FailedToStopBastion e)] \<and>
            exitStatus (run [ChildExit code, StopSettled 0 (Some e)] s) = Some 0 \<and>
            exitStatus (run [ChildExit code, StopSettled 0 None] s) = Some 0)"
proof -
  have "childGlobal s = Some c \<and> \<not> exited c \<and> exitObserver s = Some b \<and> awaits s = [] \<longrightarrow>
            trace (run [ChildExit code, StopSettled 0 (Some e)] s) =
              trace (run [ChildExit code] s) @ [ConsoleError (FailedToStopBastion e)] \<and>
            exitStatus (run [ChildExit code, StopSettled 0 (Some e)] s) = Some 0 \<and>
            exitStatus (run [ChildExit code, StopSettled 0 None] s) = Some 0"
  proof (intro impI)
    assume h: "childGlobal s = Some c \<and> \<not> exited c \<and> exitObserver s = Some b \<and> awaits s = []"
    then have c: "childGlobal s = Some c" and x: "\<not> exited c" and o: "exitObserver s = Some b"
      and w: "awaits s = []" by simp_all
    have one: "trace (run [ChildExit code] s) =
        trace s @ [ConsoleLog (SessionExited code), ConsoleLog (StoppingBastion b), StopInstances b]"
      using childExit_step[OF assms(1) c x o, of code] by simp
    from childExit_then_settle(3)[OF assms(1) c x o w, of code "Some e"]
         childExit_then_settle(1)[OF assms(1) c x o w] one
    show "trace (run [ChildExit code, StopSettled 0 (Some e)] s) =
              trace (run [ChildExit code] s) @ [ConsoleError (FailedToStopBastion e)] \<and>
            exitStatus (run [ChildExit code, StopSettled 0 (Some e)] s) = Some 0 \<and>
            exitStatus (run [ChildExit code, StopSettled 0 None] s) = Some 0"
      by simp
  qed
  then show ?thesis
    using signal_settle_trace(2)[OF assms, of sg "Some e"] signal_then_settle[OF assms(1)]
    by simp
qed

theorem stop_failure_logged_exit_code_kept_witness:
  "trace (run [Signal SIGTERM, StopSettled 0 (Some (Rejected ''UnauthorizedOperation''))] demoSession) =
     trace (run [Signal SIGTERM] demoSession) @
       [ConsoleError (FailedToStopBastion (Rejected ''UnauthorizedOperation'')), Exit 143] \<and>
   exitStatus (run [Signal SIGTERM, StopSettled 0 (Some (Rejected ''UnauthorizedOperation''))]
                 demoSession) = Some 143 \<and>
   trace (run [ChildExit (Some 0), StopSettled 0 (Some (Rejected ''UnauthorizedOperation''))]
            demoSession) =
     trace (run [ChildExit (Some 0)] demoSession) @
       [ConsoleError (FailedToStopBastion (Rejected ''UnauthorizedOperation''))] \<and>
   exitStatus (run [ChildExit (Some 0), StopSettled 0 (Some (Rejected ''UnauthorizedOperation''))]
                 demoSession) = Some 0"
proof -
  have h: "''i-0bastion'' \<noteq> []" by simp
  note inst = stop_failure_logged_exit_code_kept[OF demoSession_fields(1,2,3) h,
                where sg = SIGTERM and e = "Rejected ''UnauthorizedOperation''"
                  and c = "\<lparr>killed = False, exited = False\<rparr>" and code = "Some 0"]
  have a: "trace (run [Signal SIGTERM, StopSettled 0 (Some (Rejected ''UnauthorizedOperation''))]
                    demoSession) =
     trace (run [Signal SIGTERM] demoSession) @
       [ConsoleError (FailedToStopBastion (Rejected ''UnauthorizedOperation'')), Exit 143]"
    and b: "exitStatus (run [Signal SIGTERM, StopSettled 0 (Some (Rejected ''UnauthorizedOperation''))]
                 demoSession) = Some 143"
    using inst demoSession_fields(6) by simp_all
  have c: "trace (run [ChildExit (Some 0), StopSettled 0 (Some (Rejected ''UnauthorizedOperation''))]
            demoSession) =
     trace (run [ChildExit (Some 0)] demoSession) @
       [ConsoleError (FailedToStopBastion (Rejected ''UnauthorizedOperation''))] \<and>
   exitStatus (run [ChildExit (Some 0), StopSettled 0 (Some (Rejected ''UnauthorizedOperation''))]
                 demoSession) = Some 0"
    using inst demoSession_fields(4,5,6) by simp
  from a b c show ?thesis by simp
qed

end
